theory Spec2Isabelle
  imports Main
begin

unbundle bit_operations_syntax

section \<open>Values, exceptions and standard output\<close>

text \<open>
  The notebook \<^verbatim>\<open>comprehensive.ipynb\<close> is a sequence of Python cells run by a
  single cooperative task. Exceptions are values of the type \<open>exc\<close>; a computation that
  may raise returns \<open>exc + 'a\<close> (\<open>Inl\<close> is the raised exception) next to the state it
  leaves behind. \<^verbatim>\<open>await asyncio.sleep(0.1)\<close> hands control to the event loop and
  resumes with \<^verbatim>\<open>None\<close>; it changes none of the program's data, so it is a
  step that leaves the state as it is.
\<close>

datatype exc =
    StopAsyncIteration
  | CancelledError
  | ZeroDivisionError string
  | TypeError string
  | AttributeError string

datatype pyval = PyNone | PyBool bool | PyInt int | PyStr string

text \<open>\<^verbatim>\<open>bool(x)\<close>, the truth test \<^verbatim>\<open>if not x\<close> applies.\<close>

fun truthy :: "pyval \<Rightarrow> bool" where
  "truthy PyNone = False"
| "truthy (PyBool b) = b"
| "truthy (PyInt i) = (i \<noteq> 0)"
| "truthy (PyStr s) = (s \<noteq> [])"

text \<open>
  \<^verbatim>\<open>str(e)\<close> of an exception: its message, empty when it was raised without one.
\<close>

fun exc_str :: "exc \<Rightarrow> string" where
  "exc_str StopAsyncIteration = ''''"
| "exc_str CancelledError = ''''"
| "exc_str (ZeroDivisionError m) = m"
| "exc_str (TypeError m) = m"
| "exc_str (AttributeError m) = m"

definition digits :: string where
  "digits = ''0123456789''"

function str_nat :: "nat \<Rightarrow> string" where
  "str_nat k = (if k < 10 then [digits ! k] else str_nat (k div 10) @ [digits ! (k mod 10)])"
  by pat_completeness auto
termination
  by (relation "measure id") auto

declare str_nat.simps [simp del]

text \<open>\<^verbatim>\<open>str(i)\<close> of a Python \<^verbatim>\<open>int\<close>.\<close>

definition str_int :: "int \<Rightarrow> string" where
  "str_int i = (if i < 0 then CHR ''-'' # str_nat (nat (- i)) else str_nat (nat i))"

text \<open>
  \<^verbatim>\<open>print(x, end=e)\<close> writes \<^verbatim>\<open>str(x)\<close> and then \<open>e\<close> to standard output,
  which is the string written so far.
\<close>

definition print_end :: "string \<Rightarrow> string \<Rightarrow> string \<Rightarrow> string" where
  "print_end s e out = out @ s @ e"

definition newline :: string where
  "newline = [CHR 0x0A]"

section \<open>The asynchronous sequence producers\<close>

text \<open>
  \<^verbatim>\<open>
  async def async_gen_func(limit):
      await asyncio.sleep(0.1)
      n = 0
      while n < limit:
          n += 1
          yield n

  class AsyncIterable:
      def __init__(self, limit):
          self.n = 0
          self.limit = limit
      async def __aiter__(self):
          await asyncio.sleep(0.1)
          while self.n < self.limit:
              self.n += 1
              value = yield self.n
              if value is not None:
                  self.n = value

  class AsyncIterator:
      def __init__(self, limit):
          self.n = 0
          self.limit = limit
      def __aiter__(self):
          return self
      async def __anext__(self):
          await asyncio.sleep(0.1)
          self.n += 1
          if self.n > self.limit:
              raise StopAsyncIteration
          return self.n
  \<close>
  The cursor \<open>n\<close> and the bound \<open>limit\<close> are Python integers. For the two classes they
  are attributes of the instance; for \<^verbatim>\<open>async_gen_func\<close> they are locals of the
  generator's frame (\<open>n\<close> is bound by the first resumption; the model holds 0 before).
\<close>

record counter =
  n :: int
  limit :: int

text \<open>
  Where the frame of an asynchronous generator stands: not yet started, suspended at its
  \<^verbatim>\<open>yield\<close>, or returned.
\<close>

datatype pc = Created | Suspended | Finished

text \<open>
  The objects of the first cell: the asynchronous generator \<^verbatim>\<open>async_gen_func(limit)\<close>
  returns; an \<^verbatim>\<open>AsyncIterable\<close> instance; the asynchronous generator its
  \<^verbatim>\<open>__aiter__\<close> returns, which works on the attributes of that instance; an
  \<^verbatim>\<open>AsyncIterator\<close> instance.
\<close>

datatype obj =
    AsyncGen pc counter
  | AsyncIterable counter
  | AsyncIterableGen pc counter
  | AsyncIterator counter

definition async_gen_func :: "int \<Rightarrow> obj" where
  "async_gen_func lim = AsyncGen Created \<lparr>n = 0, limit = lim\<rparr>"

definition AsyncIterable_init :: "int \<Rightarrow> obj" where
  "AsyncIterable_init lim = AsyncIterable \<lparr>n = 0, limit = lim\<rparr>"

definition AsyncIterator_init :: "int \<Rightarrow> obj" where
  "AsyncIterator_init lim = AsyncIterator \<lparr>n = 0, limit = lim\<rparr>"

text \<open>
  \<^verbatim>\<open>type(o).__aiter__(o)\<close>: an asynchronous generator and an \<^verbatim>\<open>AsyncIterator\<close>
  return themselves; \<^verbatim>\<open>AsyncIterable.__aiter__\<close> is an asynchronous generator
  function, so the call returns a new generator, not yet started, over the same instance.
\<close>

fun aiter :: "obj \<Rightarrow> obj" where
  "aiter (AsyncGen p c) = AsyncGen p c"
| "aiter (AsyncIterable c) = AsyncIterableGen Created c"
| "aiter (AsyncIterableGen p c) = AsyncIterableGen p c"
| "aiter (AsyncIterator c) = AsyncIterator c"

text \<open>The instance whose attributes a producer works on.\<close>

fun instance_of :: "obj \<Rightarrow> obj" where
  "instance_of (AsyncIterableGen p c) = AsyncIterable c"
| "instance_of g = g"

text \<open>
  The loop of \<^verbatim>\<open>async_gen_func\<close> from its head to the next \<^verbatim>\<open>yield\<close>, or to
  the end of the body, where the generator raises \<^verbatim>\<open>StopAsyncIteration\<close>.
\<close>

definition agf_loop :: "counter \<Rightarrow> (exc + int) \<times> obj" where
  "agf_loop c =
     (if n c < limit c
      then (let c' = c\<lparr>n := n c + 1\<rparr> in (Inr (n c'), AsyncGen Suspended c'))
      else (Inl StopAsyncIteration, AsyncGen Finished c))"

text \<open>The loop of \<^verbatim>\<open>AsyncIterable.__aiter__\<close>, likewise.\<close>

definition aig_loop :: "counter \<Rightarrow> (exc + int) \<times> obj" where
  "aig_loop c =
     (if n c < limit c
      then (let c' = c\<lparr>n := n c + 1\<rparr> in (Inr (n c'), AsyncIterableGen Suspended c'))
      else (Inl StopAsyncIteration, AsyncIterableGen Finished c))"

text \<open>
  \<^verbatim>\<open>await g.asend(value)\<close>: resume the generator with \<open>value\<close> as the result of the
  \<^verbatim>\<open>yield\<close> it is suspended at (\<open>None\<close> is Python's \<^verbatim>\<open>None\<close>). A generator that
  has not started accepts only \<^verbatim>\<open>None\<close>; one that has returned raises
  \<^verbatim>\<open>StopAsyncIteration\<close>. \<^verbatim>\<open>async_gen_func\<close> discards the value;
  \<^verbatim>\<open>AsyncIterable.__aiter__\<close> stores a value that is not \<^verbatim>\<open>None\<close> in
  \<^verbatim>\<open>self.n\<close>. The two classes have no \<^verbatim>\<open>asend\<close>.
\<close>

definition just_started :: exc where
  "just_started = TypeError ''can't send non-None value to a just-started async generator''"

definition no_attribute :: "string \<Rightarrow> string \<Rightarrow> exc" where
  "no_attribute cls attr =
     AttributeError ([CHR 0x27] @ cls @ [CHR 0x27] @ '' object has no attribute '' @
       [CHR 0x27] @ attr @ [CHR 0x27])"

fun asend :: "int option \<Rightarrow> obj \<Rightarrow> (exc + int) \<times> obj" where
  "asend None (AsyncGen Created c) = agf_loop (c\<lparr>n := 0\<rparr>)"
| "asend (Some v) (AsyncGen Created c) = (Inl just_started, AsyncGen Created c)"
| "asend x (AsyncGen Suspended c) = agf_loop c"
| "asend x (AsyncGen Finished c) = (Inl StopAsyncIteration, AsyncGen Finished c)"
| "asend None (AsyncIterableGen Created c) = aig_loop c"
| "asend (Some v) (AsyncIterableGen Created c) = (Inl just_started, AsyncIterableGen Created c)"
| "asend x (AsyncIterableGen Suspended c) =
     aig_loop (case x of None \<Rightarrow> c | Some v \<Rightarrow> c\<lparr>n := v\<rparr>)"
| "asend x (AsyncIterableGen Finished c) = (Inl StopAsyncIteration, AsyncIterableGen Finished c)"
| "asend x (AsyncIterable c) =
     (Inl (no_attribute ''AsyncIterable'' ''asend''), AsyncIterable c)"
| "asend x (AsyncIterator c) =
     (Inl (no_attribute ''AsyncIterator'' ''asend''), AsyncIterator c)"

text \<open>
  \<^verbatim>\<open>await o.__anext__()\<close>, one production step. For an asynchronous generator it is
  \<^verbatim>\<open>asend(None)\<close>; for an \<^verbatim>\<open>AsyncIterator\<close> it is the method of the class; an
  \<^verbatim>\<open>AsyncIterable\<close> has no such method.
\<close>

fun anext :: "obj \<Rightarrow> (exc + int) \<times> obj" where
  "anext (AsyncIterator c) =
     (let c' = c\<lparr>n := n c + 1\<rparr>
      in if n c' > limit c' then (Inl StopAsyncIteration, AsyncIterator c')
         else (Inr (n c'), AsyncIterator c'))"
| "anext (AsyncIterable c) =
     (Inl (no_attribute ''AsyncIterable'' ''__anext__''), AsyncIterable c)"
| "anext g = asend None g"

text \<open>The cursor and the bound a producer works with.\<close>

fun counter_of :: "obj \<Rightarrow> counter" where
  "counter_of (AsyncGen p c) = c"
| "counter_of (AsyncIterable c) = c"
| "counter_of (AsyncIterableGen p c) = c"
| "counter_of (AsyncIterator c) = c"

definition cursor :: "obj \<Rightarrow> int" where
  "cursor g = n (counter_of g)"

definition bound :: "obj \<Rightarrow> int" where
  "bound g = limit (counter_of g)"

section \<open>Driving a producer: \<^verbatim>\<open>demo_ag\<close>\<close>

text \<open>
  \<^verbatim>\<open>
  async def demo_ag(ag_callable, *args):
      print("manual: ", end="")
      iter_ = ag_callable(*args)
      async_gen = type(iter_).__aiter__(iter_)
      running = True
      while running:
          try:
              target = await async_gen.__anext__()
          except StopAsyncIteration:
              running = False
          else:
              print(target, end=", ")      # <LOOP BODY>
      else:
          print("done")                    # <LOOP ELSE>
      print("magic : ", end="")
      async for target in async_gen_func(*args):
          print(target, end=", ")          # <LOOP BODY>
      else:
          print("done")                    # <LOOP ELSE>
  \<close>
  The \<^verbatim>\<open>while\<close> loop is a recursive function over the producer. Its body is a
  parameter (the source marks it as the part to replace): it takes the target and the
  state the body works on. \<^verbatim>\<open>StopAsyncIteration\<close> ends the loop; any other
  exception leaves it and propagates. The result is how the loop ended, the state of the
  body and the producer as the loop leaves it.
\<close>

text \<open>
  The loop ends because every step that returns a target brings the cursor closer to the
  bound; this is the distance, one more while a generator has not started.
\<close>

fun steps_left :: "obj \<Rightarrow> nat" where
  "steps_left (AsyncGen Created c) = nat (limit c) + 1"
| "steps_left (AsyncGen p c) = nat (limit c - n c)"
| "steps_left (AsyncIterableGen Created c) = nat (limit c - n c) + 1"
| "steps_left (AsyncIterableGen p c) = nat (limit c - n c)"
| "steps_left (AsyncIterator c) = nat (limit c - n c)"
| "steps_left (AsyncIterable c) = 0"

function manual_loop :: "(int \<Rightarrow> 'a \<Rightarrow> 'a) \<Rightarrow> obj \<Rightarrow> 'a \<Rightarrow> (exc + unit) \<times> 'a \<times> obj" where
  "manual_loop body g acc =
     (case anext g of
        (Inr target, g') \<Rightarrow> manual_loop body g' (body target acc)
      | (Inl e, g') \<Rightarrow>
          (if e = StopAsyncIteration then (Inr (), acc, g') else (Inl e, acc, g')))"
  by pat_completeness auto
termination
  apply (relation "measure (\<lambda>(body, g, acc). steps_left g)")
   apply auto
  subgoal for g g' target
    by (cases g rule: steps_left.cases)
       (auto simp: agf_loop_def aig_loop_def Let_def split: if_splits)
  done

declare manual_loop.simps [simp del]

text \<open>
  \<^verbatim>\<open>async for target in e: body\<close> calls \<^verbatim>\<open>type(e).__aiter__(e)\<close> and runs the
  loop above on the result; that is what the "manual" half of \<^verbatim>\<open>demo_ag\<close> spells
  out.
\<close>

definition async_for :: "(int \<Rightarrow> 'a \<Rightarrow> 'a) \<Rightarrow> obj \<Rightarrow> 'a \<Rightarrow> (exc + unit) \<times> 'a \<times> obj" where
  "async_for body e acc = manual_loop body (aiter e) acc"

definition loop_body :: "int \<Rightarrow> string \<Rightarrow> string" where
  "loop_body target out = print_end (str_int target) '', '' out"

definition loop_else :: "string \<Rightarrow> string" where
  "loop_else out = print_end ''done'' newline out"

definition demo_ag :: "(int \<Rightarrow> obj) \<Rightarrow> int \<Rightarrow> string \<Rightarrow> (exc + unit) \<times> string" where
  "demo_ag ag_callable arg out =
     (let out1 = print_end ''manual: '' '''' out;
          iter = ag_callable arg;
          async_gen = aiter iter
      in case manual_loop loop_body async_gen out1 of
           (Inl e, out2, g) \<Rightarrow> (Inl e, out2)
         | (Inr u, out2, g) \<Rightarrow>
             (let out3 = loop_else out2;
                  out4 = print_end ''magic : '' '''' out3
              in case async_for loop_body (async_gen_func arg) out4 of
                   (Inl e, out5, g') \<Rightarrow> (Inl e, out5)
                 | (Inr u', out5, g') \<Rightarrow> (Inr (), loop_else out5)))"

text \<open>
  The targets a full drain binds, in order, with the way the drain ended and the producer
  it leaves: the loop with a body that records its target.
\<close>

definition drain :: "obj \<Rightarrow> (exc + unit) \<times> int list \<times> obj" where
  "drain g = manual_loop (\<lambda>target xs. xs @ [target]) g []"

text \<open>The producer after \<open>k\<close> production steps, whatever each step returned.\<close>

fun anext_times :: "nat \<Rightarrow> obj \<Rightarrow> obj" where
  "anext_times 0 g = g"
| "anext_times (Suc k) g = snd (anext (anext_times k g))"

text \<open>
  The producer states a consumer can bring about: it calls one of the three callables and
  \<^verbatim>\<open>__aiter__\<close>, takes production steps, sends values in, and may start another
  iteration on the instance a producer works on.
\<close>

inductive reachable :: "obj \<Rightarrow> bool" where
  start_async_gen_func: "reachable (aiter (async_gen_func L))"
| start_AsyncIterable: "reachable (aiter (AsyncIterable_init L))"
| start_AsyncIterator: "reachable (aiter (AsyncIterator_init L))"
| step: "reachable g \<Longrightarrow> reachable (snd (anext g))"
| inject: "reachable g \<Longrightarrow> reachable (snd (asend x g))"
| again: "reachable g \<Longrightarrow> reachable (aiter (instance_of g))"

code_pred reachable .

text \<open>
  What holds of every such state: the model's cursor of an \<^verbatim>\<open>async_gen_func\<close>
  generator that has not started is 0 (its first step binds it to 0), and a generator
  returns only with its cursor at or past the bound.
\<close>

fun well_formed :: "obj \<Rightarrow> bool" where
  "well_formed (AsyncGen Created c) = (n c = 0)"
| "well_formed (AsyncGen Suspended c) = True"
| "well_formed (AsyncGen Finished c) = (limit c \<le> n c)"
| "well_formed (AsyncIterableGen Created c) = True"
| "well_formed (AsyncIterableGen Suspended c) = True"
| "well_formed (AsyncIterableGen Finished c) = (limit c \<le> n c)"
| "well_formed (AsyncIterator c) = True"
| "well_formed (AsyncIterable c) = False"

section \<open>The scoped-resource manager\<close>

text \<open>
  \<^verbatim>\<open>
  class AsyncContextManager:
      def __init__(self, exclusive_resource=None):
          self.exclusive_resource = exclusive_resource
      async def __aenter__(self):
          self.exclusive_resource
      async def __aexit__(self, exc_type, exc_value, tb):
          pass
  \<close>
  The instance has the attribute its constructor sets and, once the cell below has
  assigned it, \<^verbatim>\<open>resource_used\<close> (\<open>None\<close> while the attribute does not exist). Both
  methods are coroutines without a suspension point; both return \<^verbatim>\<open>None\<close>.
  The exception information \<^verbatim>\<open>__aexit__\<close> receives is the exception in flight, or
  \<open>None\<close> for the three \<^verbatim>\<open>None\<close> arguments of a normal exit.
\<close>

record AsyncContextManager =
  exclusive_resource :: pyval
  resource_used :: "pyval option"

definition AsyncContextManager_init :: "pyval \<Rightarrow> AsyncContextManager" where
  "AsyncContextManager_init r = \<lparr>exclusive_resource = r, resource_used = None\<rparr>"

definition aenter :: "AsyncContextManager \<Rightarrow> (exc + pyval) \<times> AsyncContextManager" where
  "aenter self = (let r = exclusive_resource self in (Inr PyNone, self))"

definition aexit :: "exc option \<Rightarrow> AsyncContextManager \<Rightarrow> (exc + pyval) \<times> AsyncContextManager" where
  "aexit exc_info self = (Inr PyNone, self)"

text \<open>
  The statement \<^verbatim>\<open>async with mgr: body\<close>, as the language reference defines it:
  \<^verbatim>\<open>
  value = await type(mgr).__aenter__(mgr)
  hit_except = False
  try:
      body
  except:
      hit_except = True
      if not await type(mgr).__aexit__(mgr, *sys.exc_info()):
          raise
  finally:
      if not hit_except:
          await type(mgr).__aexit__(mgr, None, None, None)
  \<close>
  The two methods and the body are parameters; each works on the state \<open>'m\<close> and may
  raise. The bare \<^verbatim>\<open>except\<close> catches every exception, also the
  \<^verbatim>\<open>CancelledError\<close> the event loop throws into a task that is cancelled while it is
  suspended in the body. The statement keeps a trace of the calls it makes of the two
  methods, which is not part of the program's state: the body cannot change it.
\<close>

datatype call = Aenter | Aexit "exc option"

definition async_with ::
  "('m \<Rightarrow> (exc + pyval) \<times> 'm) \<Rightarrow> (exc option \<Rightarrow> 'm \<Rightarrow> (exc + pyval) \<times> 'm) \<Rightarrow>
   ('m \<Rightarrow> (exc + unit) \<times> 'm) \<Rightarrow> 'm \<times> call list \<Rightarrow> (exc + unit) \<times> 'm \<times> call list" where
  "async_with enter exit body s =
     (case s of (m, calls) \<Rightarrow>
        (case enter m of
           (Inl e, m1) \<Rightarrow> (Inl e, m1, calls @ [Aenter])
         | (Inr v, m1) \<Rightarrow>
             (case body m1 of
                (Inl e, m2) \<Rightarrow>
                  (case exit (Some e) m2 of
                     (Inl e', m3) \<Rightarrow> (Inl e', m3, calls @ [Aenter, Aexit (Some e)])
                   | (Inr r, m3) \<Rightarrow>
                       (if \<not> truthy r
                        then (Inl e, m3, calls @ [Aenter, Aexit (Some e)])
                        else (Inr (), m3, calls @ [Aenter, Aexit (Some e)])))
              | (Inr u, m2) \<Rightarrow>
                  (case exit None m2 of
                     (Inl e', m3) \<Rightarrow> (Inl e', m3, calls @ [Aenter, Aexit None])
                   | (Inr r, m3) \<Rightarrow> (Inr (), m3, calls @ [Aenter, Aexit None])))))"

text \<open>
  The cell that uses the manager:
  \<^verbatim>\<open>
  acm = AsyncContextManager()
  try:
      async with acm:
          acm.resource_used = True
          # do something dangerous
          1/0
  except Exception as exc:
      print(exc)
  \<close>
  \<^verbatim>\<open>a / b\<close> as a statement raises \<^verbatim>\<open>ZeroDivisionError\<close> when \<open>b\<close> is 0; its
  value is not used. Every exception of the model is an \<^verbatim>\<open>Exception\<close>, as the
  interpreter the notebook names (3.7) has it, so the handler catches each of them.
\<close>

definition truediv_stmt :: "int \<Rightarrow> int \<Rightarrow> exc + unit" where
  "truediv_stmt a b = (if b = 0 then Inl (ZeroDivisionError ''division by zero'') else Inr ())"

definition cell_body :: "AsyncContextManager \<Rightarrow> (exc + unit) \<times> AsyncContextManager" where
  "cell_body acm =
     (let acm1 = acm\<lparr>resource_used := Some (PyBool True)\<rparr>
      in (truediv_stmt 1 0, acm1))"

definition acm_cell :: "string \<Rightarrow> string \<times> AsyncContextManager \<times> call list" where
  "acm_cell out =
     (let acm = AsyncContextManager_init PyNone
      in case async_with aenter aexit cell_body (acm, []) of
           (Inl exc, acm', calls) \<Rightarrow> (print_end (exc_str exc) newline out, acm', calls)
         | (Inr u, acm', calls) \<Rightarrow> (out, acm', calls))"

text \<open>
  To see how often a block invokes \<^verbatim>\<open>__aexit__\<close>, the method is run on a state
  that carries the history of its own invocations: every invocation, and nothing else,
  appends the exception information it was called with, whether the method then returns
  or raises. \<^verbatim>\<open>__aenter__\<close> and the body run on the same state and leave the
  history as it is; the body works on the program's state only, so it makes no call of
  \<^verbatim>\<open>__aexit__\<close> of its own.
\<close>

definition recording ::
  "(exc option \<Rightarrow> 'm \<Rightarrow> (exc + pyval) \<times> 'm) \<Rightarrow>
   exc option \<Rightarrow> 'm \<times> exc option list \<Rightarrow> (exc + pyval) \<times> 'm \<times> exc option list" where
  "recording exit info s =
     (case s of (m, history) \<Rightarrow>
        (case exit info m of (r, m') \<Rightarrow> (r, m', history @ [info])))"

definition unrecorded ::
  "('m \<Rightarrow> 'r \<times> 'm) \<Rightarrow> 'm \<times> exc option list \<Rightarrow> 'r \<times> 'm \<times> exc option list" where
  "unrecorded f s =
     (case s of (m, history) \<Rightarrow> (case f m of (r, m') \<Rightarrow> (r, m', history)))"

section \<open>Awaitables and the classifier predicates\<close>

text \<open>
  The last three cells define a class with an \<^verbatim>\<open>__await__\<close> method, a native
  coroutine function and a generator function decorated with
  \<^verbatim>\<open>@asyncio.coroutine\<close>, create one object from each and assert what
  \<^verbatim>\<open>inspect.iscoroutine\<close>, \<^verbatim>\<open>inspect.iscoroutinefunction\<close>,
  \<^verbatim>\<open>inspect.isawaitable\<close> and \<^verbatim>\<open>isinstance(_, collections.abc.Awaitable)\<close>
  say of them. These predicates look at the type of an object and at the flags of its code
  object, so that is what an object is here. The flags are the interpreter's
  (\<^verbatim>\<open>Include/code.h\<close>); a user-defined class is its name and the methods it defines.
\<close>

definition CO_OPTIMIZED :: int where "CO_OPTIMIZED = 0x01"
definition CO_NEWLOCALS :: int where "CO_NEWLOCALS = 0x02"
definition CO_VARARGS :: int where "CO_VARARGS = 0x04"
definition CO_VARKEYWORDS :: int where "CO_VARKEYWORDS = 0x08"
definition CO_NESTED :: int where "CO_NESTED = 0x10"
definition CO_GENERATOR :: int where "CO_GENERATOR = 0x20"
definition CO_NOFREE :: int where "CO_NOFREE = 0x40"
definition CO_COROUTINE :: int where "CO_COROUTINE = 0x80"
definition CO_ITERABLE_COROUTINE :: int where "CO_ITERABLE_COROUTINE = 0x100"
definition CO_ASYNC_GENERATOR :: int where "CO_ASYNC_GENERATOR = 0x200"

datatype pytype =
    FunctionType
  | MethodType
  | CoroutineType
  | GeneratorType
  | AsyncGeneratorType
  | Class string "string list"

record pyobject =
  ob_type :: pytype
  co_flags :: int

text \<open>
  What the compiler makes of a function definition: \<^verbatim>\<open>async def\<close> without
  \<^verbatim>\<open>yield\<close> is a coroutine function, \<^verbatim>\<open>async def\<close> with \<^verbatim>\<open>yield\<close> an
  asynchronous generator function, \<^verbatim>\<open>def\<close> with \<^verbatim>\<open>yield\<close> a generator
  function. The functions of the notebook have no free variables.
\<close>

definition def_function :: "bool \<Rightarrow> bool \<Rightarrow> pyobject" where
  "def_function is_async has_yield =
     \<lparr>ob_type = FunctionType,
      co_flags = CO_OPTIMIZED OR CO_NEWLOCALS OR CO_NOFREE OR
        (if is_async \<and> has_yield then CO_ASYNC_GENERATOR
         else if is_async then CO_COROUTINE
         else if has_yield then CO_GENERATOR
         else 0)\<rparr>"

text \<open>
  The wrappers the standard library puts around a function are nested functions with
  \<^verbatim>\<open>*args\<close> and \<^verbatim>\<open>**kwargs\<close> that refer to the function they wrap.
\<close>

definition def_wrapper :: "bool \<Rightarrow> pyobject" where
  "def_wrapper has_yield =
     \<lparr>ob_type = FunctionType,
      co_flags = CO_OPTIMIZED OR CO_NEWLOCALS OR CO_VARARGS OR CO_VARKEYWORDS OR CO_NESTED OR
        (if has_yield then CO_GENERATOR else 0)\<rparr>"

text \<open>An instance of a user-defined class.\<close>

definition new_instance :: "string \<Rightarrow> string list \<Rightarrow> pyobject" where
  "new_instance name methods = \<lparr>ob_type = Class name methods, co_flags = 0\<rparr>"

text \<open>
  Calling a function whose code has one of the three flags runs none of its body: it
  returns a coroutine, an asynchronous generator or a generator over that code. (A call of
  any other function runs the body; no claim needs one, and the model returns \<open>None\<close>.)
\<close>

definition call_function :: "pyobject \<Rightarrow> pyobject option" where
  "call_function f =
     (if ob_type f \<noteq> FunctionType then None
      else if co_flags f AND CO_COROUTINE \<noteq> 0
        then Some \<lparr>ob_type = CoroutineType, co_flags = co_flags f\<rparr>
      else if co_flags f AND CO_ASYNC_GENERATOR \<noteq> 0
        then Some \<lparr>ob_type = AsyncGeneratorType, co_flags = co_flags f\<rparr>
      else if co_flags f AND CO_GENERATOR \<noteq> 0
        then Some \<lparr>ob_type = GeneratorType, co_flags = co_flags f\<rparr>
      else None)"

text \<open>
  The predicates of the standard library (\<^verbatim>\<open>Lib/inspect.py\<close>,
  \<^verbatim>\<open>Lib/_collections_abc.py\<close>):
  \<^verbatim>\<open>
  def isfunction(object): return isinstance(object, types.FunctionType)
  def ismethod(object): return isinstance(object, types.MethodType)
  def isgeneratorfunction(object):
      return bool((isfunction(object) or ismethod(object)) and
                  object.__code__.co_flags & CO_GENERATOR)
  def iscoroutinefunction(object):
      return bool((isfunction(object) or ismethod(object)) and
                  object.__code__.co_flags & CO_COROUTINE)
  def iscoroutine(object): return isinstance(object, types.CoroutineType)
  def isawaitable(object):
      return (isinstance(object, types.CoroutineType) or
              isinstance(object, types.GeneratorType) and
                  bool(object.gi_code.co_flags & CO_ITERABLE_COROUTINE) or
              isinstance(object, collections.abc.Awaitable))
  \<close>
  \<^verbatim>\<open>collections.abc.Awaitable\<close> accepts an object whose type has an
  \<^verbatim>\<open>__await__\<close> method: of the built-in types here, the coroutine type only.
\<close>

definition isfunction :: "pyobject \<Rightarrow> bool" where
  "isfunction object = (ob_type object = FunctionType)"

definition ismethod :: "pyobject \<Rightarrow> bool" where
  "ismethod object = (ob_type object = MethodType)"

definition isgeneratorfunction :: "pyobject \<Rightarrow> bool" where
  "isgeneratorfunction object =
     ((isfunction object \<or> ismethod object) \<and> co_flags object AND CO_GENERATOR \<noteq> 0)"

definition iscoroutinefunction :: "pyobject \<Rightarrow> bool" where
  "iscoroutinefunction object =
     ((isfunction object \<or> ismethod object) \<and> co_flags object AND CO_COROUTINE \<noteq> 0)"

definition iscoroutine :: "pyobject \<Rightarrow> bool" where
  "iscoroutine object = (ob_type object = CoroutineType)"

fun has_await :: "pytype \<Rightarrow> bool" where
  "has_await CoroutineType = True"
| "has_await (Class name methods) = (''__await__'' \<in> set methods)"
| "has_await t = False"

definition isinstance_Awaitable :: "pyobject \<Rightarrow> bool" where
  "isinstance_Awaitable object = has_await (ob_type object)"

definition isawaitable :: "pyobject \<Rightarrow> bool" where
  "isawaitable object =
     (ob_type object = CoroutineType \<or>
      ob_type object = GeneratorType \<and> co_flags object AND CO_ITERABLE_COROUTINE \<noteq> 0 \<or>
      isinstance_Awaitable object)"

text \<open>
  \<^verbatim>\<open>types.coroutine\<close> (\<^verbatim>\<open>Lib/types.py\<close>) returns a function whose code
  has \<^verbatim>\<open>CO_COROUTINE\<close> or \<^verbatim>\<open>CO_ITERABLE_COROUTINE\<close> as it is, sets
  \<^verbatim>\<open>CO_ITERABLE_COROUTINE\<close> in the code of a generator function, and wraps
  anything else in a plain function.
  \<^verbatim>\<open>@asyncio.coroutine\<close> (\<^verbatim>\<open>Lib/asyncio/coroutines.py\<close>, outside debug mode)
  returns a coroutine function as it is; it passes a generator function, or else a
  generator function it wraps around the function, to \<^verbatim>\<open>types.coroutine\<close> and
  returns the result.
\<close>

definition types_coroutine :: "pyobject \<Rightarrow> pyobject" where
  "types_coroutine func =
     (if isfunction func \<and> co_flags func AND (CO_COROUTINE OR CO_ITERABLE_COROUTINE) \<noteq> 0
      then func
      else if isfunction func \<and> co_flags func AND CO_GENERATOR \<noteq> 0
      then func\<lparr>co_flags := co_flags func OR CO_ITERABLE_COROUTINE\<rparr>
      else def_wrapper False)"

definition asyncio_coroutine :: "pyobject \<Rightarrow> pyobject" where
  "asyncio_coroutine func =
     (if iscoroutinefunction func then func
      else if isgeneratorfunction func then types_coroutine func
      else types_coroutine (def_wrapper True))"

text \<open>
  The five subjects of the cells:
  \<^verbatim>\<open>
  class FutureLike():
      def __init__(self, sleep=0.1): ...
      async def _wrapped(self): ...
      def __await__(self): return self._wrapped().__await__()
  FLO = FutureLike()

  async def native_coroutine_function(): return 1893
  NCF = native_coroutine_function
  NCO = native_coroutine_function()

  @asyncio.coroutine
  def generator_based_coroutine_function():
      yield from asyncio.sleep(0.1)
      return 1904
  GBCF = generator_based_coroutine_function
  GBCO = generator_based_coroutine_function()
  \<close>
\<close>

definition FLO :: pyobject where
  "FLO = new_instance ''FutureLike'' [''__init__'', ''_wrapped'', ''__await__'']"

definition NCF :: pyobject where
  "NCF = def_function True False"

definition NCO :: "pyobject option" where
  "NCO = call_function NCF"

definition GBCF :: pyobject where
  "GBCF = asyncio_coroutine (def_function False True)"

definition GBCO :: "pyobject option" where
  "GBCO = call_function GBCF"

section \<open>What a full drain yields\<close>

text \<open>
  A drain that starts from a suspended \<^verbatim>\<open>async_gen_func\<close> generator runs the body
  on \<open>n + 1, ..., limit\<close> in this order and ends normally, for every body.
\<close>

lemma loop_AsyncGen_Suspended:
  "manual_loop body (AsyncGen Suspended c) acc =
     (Inr (), foldl (\<lambda>a t. body t a) acc [n c + 1 .. limit c],
      AsyncGen Finished (c\<lparr>n := max (n c) (limit c)\<rparr>))"
proof (induction "nat (limit c - n c)" arbitrary: c acc)
  case 0
  then have "\<not> n c < limit c" by simp
  then show ?case
    by (simp add: manual_loop.simps [of body "AsyncGen Suspended c"] agf_loop_def max_def)
next
  case (Suc k)
  then have lt: "n c < limit c" by simp
  let ?c = "c\<lparr>n := n c + 1\<rparr>"
  have k: "k = nat (limit ?c - n ?c)" using Suc.hyps(2) by simp
  have up: "[n c + 1 .. limit c] = (n c + 1) # [n c + 1 + 1 .. limit c]"
    using lt by (simp add: upto_rec1)
  show ?case
    using lt Suc.hyps(1) [OF k, of "body (n c + 1) acc"]
    by (simp add: manual_loop.simps [of body "AsyncGen Suspended c"] agf_loop_def Let_def
        up max_def)
qed

lemma loop_AsyncGen_Created:
  "manual_loop body (AsyncGen Created c) acc =
     (Inr (), foldl (\<lambda>a t. body t a) acc [1 .. limit c],
      AsyncGen Finished (c\<lparr>n := max 0 (limit c)\<rparr>))"
proof (cases "0 < limit c")
  case True
  have up: "[1 .. limit c] = 1 # [1 + 1 .. limit c]"
    using True by (simp add: upto_rec1)
  show ?thesis
    using True
    by (simp add: manual_loop.simps [of body "AsyncGen Created c"] agf_loop_def Let_def
        loop_AsyncGen_Suspended up max_def)
next
  case False
  then show ?thesis
    by (simp add: manual_loop.simps [of body "AsyncGen Created c"] agf_loop_def max_def)
qed

text \<open>The same for the generator of \<^verbatim>\<open>AsyncIterable.__aiter__\<close>, from the cursor
  the instance holds.\<close>

lemma loop_AsyncIterableGen_Suspended:
  "manual_loop body (AsyncIterableGen Suspended c) acc =
     (Inr (), foldl (\<lambda>a t. body t a) acc [n c + 1 .. limit c],
      AsyncIterableGen Finished (c\<lparr>n := max (n c) (limit c)\<rparr>))"
proof (induction "nat (limit c - n c)" arbitrary: c acc)
  case 0
  then have "\<not> n c < limit c" by simp
  then show ?case
    by (simp add: manual_loop.simps [of body "AsyncIterableGen Suspended c"] aig_loop_def
        max_def)
next
  case (Suc k)
  then have lt: "n c < limit c" by simp
  let ?c = "c\<lparr>n := n c + 1\<rparr>"
  have k: "k = nat (limit ?c - n ?c)" using Suc.hyps(2) by simp
  have up: "[n c + 1 .. limit c] = (n c + 1) # [n c + 1 + 1 .. limit c]"
    using lt by (simp add: upto_rec1)
  show ?case
    using lt Suc.hyps(1) [OF k, of "body (n c + 1) acc"]
    by (simp add: manual_loop.simps [of body "AsyncIterableGen Suspended c"] aig_loop_def
        Let_def up max_def)
qed

lemma loop_AsyncIterableGen_Created:
  "manual_loop body (AsyncIterableGen Created c) acc =
     (Inr (), foldl (\<lambda>a t. body t a) acc [n c + 1 .. limit c],
      AsyncIterableGen Finished (c\<lparr>n := max (n c) (limit c)\<rparr>))"
proof (cases "n c < limit c")
  case True
  have up: "[n c + 1 .. limit c] = (n c + 1) # [n c + 1 + 1 .. limit c]"
    using True by (simp add: upto_rec1)
  show ?thesis
    using True
    by (simp add: manual_loop.simps [of body "AsyncIterableGen Created c"] aig_loop_def
        Let_def loop_AsyncIterableGen_Suspended up max_def)
next
  case False
  then show ?thesis
    by (simp add: manual_loop.simps [of body "AsyncIterableGen Created c"] aig_loop_def
        max_def)
qed

text \<open>
  An \<^verbatim>\<open>AsyncIterator\<close> increments its cursor before it compares, so the drain
  leaves the cursor one past the bound (or one past where it started).
\<close>

lemma loop_AsyncIterator:
  "manual_loop body (AsyncIterator c) acc =
     (Inr (), foldl (\<lambda>a t. body t a) acc [n c + 1 .. limit c],
      AsyncIterator (c\<lparr>n := max (n c) (limit c) + 1\<rparr>))"
proof (induction "nat (limit c - n c)" arbitrary: c acc)
  case 0
  then have "\<not> n c < limit c" by simp
  then show ?case
    by (simp add: manual_loop.simps [of body "AsyncIterator c"] Let_def max_def)
next
  case (Suc k)
  then have lt: "n c < limit c" by simp
  let ?c = "c\<lparr>n := n c + 1\<rparr>"
  have k: "k = nat (limit ?c - n ?c)" using Suc.hyps(2) by simp
  have up: "[n c + 1 .. limit c] = (n c + 1) # [n c + 1 + 1 .. limit c]"
    using lt by (simp add: upto_rec1)
  show ?case
    using lt Suc.hyps(1) [OF k, of "body (n c + 1) acc"]
    by (simp add: manual_loop.simps [of body "AsyncIterator c"] Let_def up max_def)
qed

lemma foldl_record: "foldl (\<lambda>xs t. xs @ [t]) acc ts = acc @ ts"
  by (induction ts arbitrary: acc) simp_all

lemma foldl_loop_body:
  "foldl (\<lambda>out t. loop_body t out) out ts = out @ concat (map (\<lambda>t. str_int t @ '', '') ts)"
  by (induction ts arbitrary: out) (simp_all add: loop_body_def print_end_def)

lemma drain_async_gen_func:
  "drain (aiter (async_gen_func L)) =
     (Inr (), [1 .. L], AsyncGen Finished \<lparr>n = max 0 L, limit = L\<rparr>)"
  by (simp add: drain_def async_gen_func_def loop_AsyncGen_Created foldl_record)

lemma drain_AsyncIterable:
  "drain (aiter (AsyncIterable_init L)) =
     (Inr (), [1 .. L], AsyncIterableGen Finished \<lparr>n = max 0 L, limit = L\<rparr>)"
  by (simp add: drain_def AsyncIterable_init_def loop_AsyncIterableGen_Created foldl_record)

lemma drain_AsyncIterator:
  "drain (aiter (AsyncIterator_init L)) =
     (Inr (), [1 .. L], AsyncIterator \<lparr>n = max 0 L + 1, limit = L\<rparr>)"
  by (simp add: drain_def AsyncIterator_init_def loop_AsyncIterator foldl_record)

lemma demo_ag_output:
  assumes "manual_loop loop_body (aiter (f L)) (out @ ''manual: '') =
             (Inr (), (out @ ''manual: '') @ concat (map (\<lambda>t. str_int t @ '', '') [1 .. L]), g)"
  shows "demo_ag f L out =
     (Inr (), out @ ''manual: '' @ concat (map (\<lambda>t. str_int t @ '', '') [1 .. L]) @ ''done'' @ newline
        @ ''magic : '' @ concat (map (\<lambda>t. str_int t @ '', '') [1 .. L]) @ ''done'' @ newline)"
  using assms
  by (simp add: demo_ag_def Let_def print_end_def loop_else_def async_for_def
      async_gen_func_def loop_AsyncGen_Created foldl_loop_body)

section \<open>The claims about the sequence producers\<close>

text \<open>
  C1. For every limit \<open>L \<ge> 0\<close>, draining the asynchronous generator
  \<^verbatim>\<open>async_gen_func(L)\<close> with \<^verbatim>\<open>__anext__\<close> alone (nothing is sent in) binds
  the targets \<open>1, 2, ..., L\<close> in this order and then ends normally, leaving a generator
  that has returned, whose every further step raises \<^verbatim>\<open>StopAsyncIteration\<close>. The
  loop's \<^verbatim>\<open>else\<close> clause runs, so \<^verbatim>\<open>demo_ag(async_gen_func, L)\<close> prints
  \<^verbatim>\<open>done\<close> after the items, in both of its halves.
\<close>

theorem async_gen_func_drain:
  assumes "0 \<le> L"
  shows "drain (aiter (async_gen_func L)) =
           (Inr (), [1 .. L], AsyncGen Finished \<lparr>n = L, limit = L\<rparr>)
       \<and> fst (anext (AsyncGen Finished \<lparr>n = L, limit = L\<rparr>)) = Inl StopAsyncIteration
       \<and> demo_ag async_gen_func L [] =
           (Inr (),
            ''manual: '' @ concat (map (\<lambda>t. str_int t @ '', '') [1 .. L]) @ ''done'' @ newline @
            ''magic : '' @ concat (map (\<lambda>t. str_int t @ '', '') [1 .. L]) @ ''done'' @ newline)"
proof -
  have "drain (aiter (async_gen_func L)) =
          (Inr (), [1 .. L], AsyncGen Finished \<lparr>n = L, limit = L\<rparr>)"
    using assms by (simp add: drain_async_gen_func max_def)
  moreover have "fst (anext (AsyncGen Finished \<lparr>n = L, limit = L\<rparr>)) = Inl StopAsyncIteration"
    by simp
  moreover have "demo_ag async_gen_func L [] =
           (Inr (),
            ''manual: '' @ concat (map (\<lambda>t. str_int t @ '', '') [1 .. L]) @ ''done'' @ newline @
            ''magic : '' @ concat (map (\<lambda>t. str_int t @ '', '') [1 .. L]) @ ''done'' @ newline)"
    using demo_ag_output [of async_gen_func L "[]"]
    by (simp add: async_gen_func_def loop_AsyncGen_Created foldl_loop_body)
  ultimately show ?thesis by blast
qed

text \<open>The run the notebook records: \<^verbatim>\<open>await demo_ag(async_gen_func, 3)\<close>.\<close>

theorem async_gen_func_drain_3:
  "(0::int) \<le> 3
   \<and> drain (aiter (async_gen_func 3)) =
        (Inr (), [1, 2, 3], AsyncGen Finished \<lparr>n = 3, limit = 3\<rparr>)
   \<and> demo_ag async_gen_func 3 [] =
        (Inr (), ''manual: 1, 2, 3, done'' @ newline @ ''magic : 1, 2, 3, done'' @ newline)"
  using async_gen_func_drain [of 3]
  by (simp add: upto_rec1 str_int_def str_nat.simps digits_def)

text \<open>
  C5. For every limit \<open>L\<close>, the three producers (the generator of
  \<^verbatim>\<open>async_gen_func\<close>, the generator of \<^verbatim>\<open>AsyncIterable.__aiter__\<close> and an
  \<^verbatim>\<open>AsyncIterator\<close>), each drained with \<^verbatim>\<open>__anext__\<close> alone, bind the same
  targets \<open>1, 2, ..., L\<close> (none when \<open>L < 1\<close>) and end normally, and the "manual" half of
  \<^verbatim>\<open>demo_ag\<close> prints the same text for each. They differ only in the cursor they
  leave: an \<^verbatim>\<open>AsyncIterator\<close> stops one past the bound.
\<close>

theorem producers_equivalent:
  "drain (aiter (async_gen_func L)) =
     (Inr (), [1 .. L], AsyncGen Finished \<lparr>n = max 0 L, limit = L\<rparr>)
   \<and> drain (aiter (AsyncIterable_init L)) =
     (Inr (), [1 .. L], AsyncIterableGen Finished \<lparr>n = max 0 L, limit = L\<rparr>)
   \<and> drain (aiter (AsyncIterator_init L)) =
     (Inr (), [1 .. L], AsyncIterator \<lparr>n = max 0 L + 1, limit = L\<rparr>)
   \<and> fst (snd (drain (aiter (AsyncIterable_init L)))) =
       fst (snd (drain (aiter (async_gen_func L))))
   \<and> fst (snd (drain (aiter (AsyncIterator_init L)))) =
       fst (snd (drain (aiter (async_gen_func L))))
   \<and> demo_ag AsyncIterable_init L out = demo_ag async_gen_func L out
   \<and> demo_ag AsyncIterator_init L out = demo_ag async_gen_func L out"
proof -
  have 1: "demo_ag async_gen_func L out =
     (Inr (), out @ ''manual: '' @ concat (map (\<lambda>t. str_int t @ '', '') [1 .. L]) @ ''done'' @
        newline @ ''magic : '' @ concat (map (\<lambda>t. str_int t @ '', '') [1 .. L]) @ ''done'' @
        newline)"
    by (rule demo_ag_output)
       (simp add: async_gen_func_def loop_AsyncGen_Created foldl_loop_body)
  have 2: "demo_ag AsyncIterable_init L out =
     (Inr (), out @ ''manual: '' @ concat (map (\<lambda>t. str_int t @ '', '') [1 .. L]) @ ''done'' @
        newline @ ''magic : '' @ concat (map (\<lambda>t. str_int t @ '', '') [1 .. L]) @ ''done'' @
        newline)"
    by (rule demo_ag_output)
       (simp add: AsyncIterable_init_def loop_AsyncIterableGen_Created foldl_loop_body)
  have 3: "demo_ag AsyncIterator_init L out =
     (Inr (), out @ ''manual: '' @ concat (map (\<lambda>t. str_int t @ '', '') [1 .. L]) @ ''done'' @
        newline @ ''magic : '' @ concat (map (\<lambda>t. str_int t @ '', '') [1 .. L]) @ ''done'' @
        newline)"
    by (rule demo_ag_output)
       (simp add: AsyncIterator_init_def loop_AsyncIterator foldl_loop_body)
  show ?thesis
    by (simp add: drain_async_gen_func drain_AsyncIterable drain_AsyncIterator 1 2 3)
qed

text \<open>The limits of the three recorded runs: 3, 4 and 5.\<close>

theorem producers_equivalent_recorded:
  "fst (snd (drain (aiter (async_gen_func 4)))) = [1, 2, 3, 4]
   \<and> fst (snd (drain (aiter (AsyncIterable_init 4)))) = [1, 2, 3, 4]
   \<and> fst (snd (drain (aiter (AsyncIterator_init 4)))) = [1, 2, 3, 4]
   \<and> demo_ag AsyncIterable_init 4 [] =
       (Inr (), ''manual: 1, 2, 3, 4, done'' @ newline @ ''magic : 1, 2, 3, 4, done'' @ newline)
   \<and> demo_ag AsyncIterator_init 5 [] =
       (Inr (), ''manual: 1, 2, 3, 4, 5, done'' @ newline @
                ''magic : 1, 2, 3, 4, 5, done'' @ newline)"
  using producers_equivalent [of 4 "[]"] producers_equivalent [of 5 "[]"]
    demo_ag_output [of async_gen_func 4 "[]"] demo_ag_output [of async_gen_func 5 "[]"]
  by (simp add: upto_rec1 str_int_def str_nat.simps digits_def async_gen_func_def
      loop_AsyncGen_Created foldl_loop_body)

text \<open>
  The producers after \<open>k\<close> production steps from their start, while \<open>k\<close> is within
  the limit.
\<close>

lemma anext_times_async_gen_func:
  "int k \<le> max L 0 \<Longrightarrow>
   anext_times k (aiter (async_gen_func L)) =
     (if k = 0 then AsyncGen Created \<lparr>n = 0, limit = L\<rparr>
      else AsyncGen Suspended \<lparr>n = int k, limit = L\<rparr>)"
proof (induction k)
  case 0
  show ?case by (simp add: async_gen_func_def)
next
  case (Suc k)
  then have "int k < L" by simp
  with Suc show ?case
    by (simp add: agf_loop_def Let_def)
qed

lemma anext_times_AsyncIterable:
  "int k \<le> max L 0 \<Longrightarrow>
   anext_times k (aiter (AsyncIterable_init L)) =
     (if k = 0 then AsyncIterableGen Created \<lparr>n = 0, limit = L\<rparr>
      else AsyncIterableGen Suspended \<lparr>n = int k, limit = L\<rparr>)"
proof (induction k)
  case 0
  show ?case by (simp add: AsyncIterable_init_def)
next
  case (Suc k)
  then have "int k < L" by simp
  with Suc show ?case
    by (simp add: aig_loop_def Let_def)
qed

lemma anext_times_AsyncIterator:
  "int k \<le> max L 0 \<Longrightarrow>
   anext_times k (aiter (AsyncIterator_init L)) = AsyncIterator \<lparr>n = int k, limit = L\<rparr>"
proof (induction k)
  case 0
  show ?case by (simp add: AsyncIterator_init_def)
next
  case (Suc k)
  then have "int k < L" by simp
  with Suc show ?case
    by (simp add: Let_def)
qed

text \<open>
  C9. For every integer limit \<open>L\<close>, also \<open>L \<le> 0\<close>, and each of the three producers: the
  first \<open>max L 0\<close> production steps return the items \<open>1, 2, ...\<close> and the next one raises
  \<^verbatim>\<open>StopAsyncIteration\<close>, so the drain (a total function) ends normally after
  \<open>max L 0 + 1\<close> steps with exactly \<open>max L 0\<close> items; for \<open>L \<le> 0\<close> that is the first step
  and no item.
\<close>

theorem drain_terminates:
  "\<forall>g \<in> {aiter (async_gen_func L), aiter (AsyncIterable_init L), aiter (AsyncIterator_init L)}.
     (\<forall>j < nat (max L 0). fst (anext (anext_times j g)) = Inr (int j + 1))
     \<and> fst (anext (anext_times (nat (max L 0)) g)) = Inl StopAsyncIteration
     \<and> fst (drain g) = Inr ()
     \<and> length (fst (snd (drain g))) = nat (max L 0)"
proof -
  have a: "fst (anext (anext_times j (aiter (async_gen_func L)))) = Inr (int j + 1)"
    if "j < nat (max L 0)" for j
  proof -
    from that have lt: "int j < L"
      by (simp add: max_def split: if_splits)
    then have "int j \<le> max L 0"
      by simp
    from anext_times_async_gen_func [OF this] lt show ?thesis
      by (simp add: agf_loop_def Let_def)
  qed
  have b: "fst (anext (anext_times j (aiter (AsyncIterable_init L)))) = Inr (int j + 1)"
    if "j < nat (max L 0)" for j
  proof -
    from that have lt: "int j < L"
      by (simp add: max_def split: if_splits)
    then have "int j \<le> max L 0"
      by simp
    from anext_times_AsyncIterable [OF this] lt show ?thesis
      by (simp add: aig_loop_def Let_def)
  qed
  have c: "fst (anext (anext_times j (aiter (AsyncIterator_init L)))) = Inr (int j + 1)"
    if "j < nat (max L 0)" for j
  proof -
    from that have lt: "int j < L"
      by (simp add: max_def split: if_splits)
    then have "int j \<le> max L 0"
      by simp
    from anext_times_AsyncIterator [OF this] lt show ?thesis
      by (simp add: Let_def)
  qed
  have a': "fst (anext (anext_times (nat (max L 0)) (aiter (async_gen_func L)))) =
      Inl StopAsyncIteration"
    using anext_times_async_gen_func [of "nat (max L 0)" L]
    by (simp add: agf_loop_def Let_def max_def split: if_splits)
  have b': "fst (anext (anext_times (nat (max L 0)) (aiter (AsyncIterable_init L)))) =
      Inl StopAsyncIteration"
    using anext_times_AsyncIterable [of "nat (max L 0)" L]
    by (simp add: aig_loop_def Let_def max_def split: if_splits)
  have c': "fst (anext (anext_times (nat (max L 0)) (aiter (AsyncIterator_init L)))) =
      Inl StopAsyncIteration"
    using anext_times_AsyncIterator [of "nat (max L 0)" L]
    by (simp add: Let_def max_def split: if_splits)
  have len: "length [1 .. L] = nat (max L 0)"
    by (simp add: max_def)
  show ?thesis
  proof
    fix g
    assume "g \<in> {aiter (async_gen_func L), aiter (AsyncIterable_init L),
      aiter (AsyncIterator_init L)}"
    then consider "g = aiter (async_gen_func L)" | "g = aiter (AsyncIterable_init L)"
      | "g = aiter (AsyncIterator_init L)"
      by blast
    then show "(\<forall>j < nat (max L 0). fst (anext (anext_times j g)) = Inr (int j + 1))
     \<and> fst (anext (anext_times (nat (max L 0)) g)) = Inl StopAsyncIteration
     \<and> fst (drain g) = Inr ()
     \<and> length (fst (snd (drain g))) = nat (max L 0)"
    proof cases
      case 1
      show ?thesis
        unfolding 1 by (intro conjI allI impI a a') (simp_all add: drain_async_gen_func len)
    next
      case 2
      show ?thesis
        unfolding 2 by (intro conjI allI impI b b') (simp_all add: drain_AsyncIterable len)
    next
      case 3
      show ?thesis
        unfolding 3 by (intro conjI allI impI c c') (simp_all add: drain_AsyncIterator len)
    qed
  qed
qed

text \<open>Limit 2 takes three steps for two items; limit -2 takes one step for none.\<close>

theorem drain_terminates_examples:
  "fst (anext (anext_times 0 (aiter (AsyncIterator_init 2)))) = Inr 1
   \<and> fst (anext (anext_times 1 (aiter (AsyncIterator_init 2)))) = Inr 2
   \<and> fst (anext (anext_times 2 (aiter (AsyncIterator_init 2)))) = Inl StopAsyncIteration
   \<and> length (fst (snd (drain (aiter (AsyncIterator_init 2))))) = 2
   \<and> fst (anext (anext_times 0 (aiter (async_gen_func (- 2))))) = Inl StopAsyncIteration
   \<and> fst (anext (anext_times 0 (aiter (AsyncIterable_init (- 2))))) = Inl StopAsyncIteration
   \<and> fst (anext (anext_times 0 (aiter (AsyncIterator_init (- 2))))) = Inl StopAsyncIteration
   \<and> length (fst (snd (drain (aiter (async_gen_func (- 2)))))) = 0
   \<and> length (fst (snd (drain (aiter (AsyncIterable_init (- 2)))))) = 0
   \<and> length (fst (snd (drain (aiter (AsyncIterator_init (- 2)))))) = 0"
proof -
  let ?it = "aiter (AsyncIterator_init 2)"
  have two: "nat (max 2 0) = Suc (Suc 0)" and none: "nat (max (- 2) 0) = 0"
    by simp_all
  have "?it \<in> {aiter (async_gen_func 2), aiter (AsyncIterable_init 2), ?it}"
    by simp
  from bspec [OF drain_terminates [of 2] this]
  have steps: "\<forall>j < Suc (Suc 0). fst (anext (anext_times j ?it)) = Inr (int j + 1)"
    and last: "fst (anext (anext_times (Suc (Suc 0)) ?it)) = Inl StopAsyncIteration"
    and len: "length (fst (snd (drain ?it))) = Suc (Suc 0)"
    unfolding two by blast+
  from steps have s0: "fst (anext (anext_times 0 ?it)) = Inr (int 0 + 1)"
    and s1: "fst (anext (anext_times (Suc 0) ?it)) = Inr (int (Suc 0) + 1)"
    by blast+
  have neg: "\<forall>g \<in> {aiter (async_gen_func (- 2)), aiter (AsyncIterable_init (- 2)),
        aiter (AsyncIterator_init (- 2))}.
      fst (anext (anext_times 0 g)) = Inl StopAsyncIteration
      \<and> length (fst (snd (drain g))) = 0"
    using drain_terminates [of "- 2"] unfolding none by blast
  have n2: "(2::nat) = Suc (Suc 0)" and n1: "(1::nat) = Suc 0"
    by simp_all
  show ?thesis
    unfolding n2 n1
    using s0 s1 last len neg by simp
qed

text \<open>
  C10. An \<^verbatim>\<open>AsyncIterable\<close> and an \<^verbatim>\<open>AsyncIterator\<close> keep the cursor on the
  instance. After one full drain the cursor is at the bound or past it, whatever the
  limit, and a second iteration started on the same instance
  (\<^verbatim>\<open>__aiter__\<close> called again) binds no target: its first production step raises
  \<^verbatim>\<open>StopAsyncIteration\<close>.
\<close>

theorem stateful_producers_single_use:
  "(let g = snd (snd (drain (aiter (AsyncIterable_init L))))
    in instance_of g = AsyncIterable \<lparr>n = max 0 L, limit = L\<rparr>
       \<and> bound (instance_of g) \<le> cursor (instance_of g)
       \<and> fst (anext (aiter (instance_of g))) = Inl StopAsyncIteration
       \<and> fst (drain (aiter (instance_of g))) = Inr ()
       \<and> fst (snd (drain (aiter (instance_of g)))) = [])
   \<and> (let g = snd (snd (drain (aiter (AsyncIterator_init L))))
      in instance_of g = AsyncIterator \<lparr>n = max 0 L + 1, limit = L\<rparr>
         \<and> bound (instance_of g) \<le> cursor (instance_of g)
         \<and> fst (anext (aiter (instance_of g))) = Inl StopAsyncIteration
         \<and> fst (drain (aiter (instance_of g))) = Inr ()
         \<and> fst (snd (drain (aiter (instance_of g)))) = [])"
proof -
  have 1: "drain (AsyncIterableGen Created \<lparr>n = max 0 L, limit = L\<rparr>) =
      (Inr (), [], AsyncIterableGen Finished \<lparr>n = max 0 L, limit = L\<rparr>)"
    by (simp add: drain_def loop_AsyncIterableGen_Created foldl_record max_def)
  have 2: "drain (AsyncIterator \<lparr>n = max 0 L + 1, limit = L\<rparr>) =
      (Inr (), [], AsyncIterator \<lparr>n = max 0 L + 1 + 1, limit = L\<rparr>)"
    by (simp add: drain_def loop_AsyncIterator foldl_record max_def)
  show ?thesis
    by (simp add: drain_AsyncIterable drain_AsyncIterator 1 2 cursor_def bound_def
        aig_loop_def Let_def)
qed

text \<open>The instances of the recorded runs, \<^verbatim>\<open>AsyncIterable(4)\<close> and
  \<^verbatim>\<open>AsyncIterator(5)\<close>, drained twice.\<close>

theorem stateful_producers_single_use_recorded:
  "instance_of (snd (snd (drain (aiter (AsyncIterable_init 4))))) =
     AsyncIterable \<lparr>n = 4, limit = 4\<rparr>
   \<and> fst (snd (drain (aiter (AsyncIterable \<lparr>n = 4, limit = 4\<rparr>)))) = []
   \<and> instance_of (snd (snd (drain (aiter (AsyncIterator_init 5))))) =
     AsyncIterator \<lparr>n = 6, limit = 5\<rparr>
   \<and> fst (snd (drain (aiter (AsyncIterator \<lparr>n = 6, limit = 5\<rparr>)))) = []"
proof -
  let ?g = "snd (snd (drain (aiter (AsyncIterable_init 4))))"
  let ?h = "snd (snd (drain (aiter (AsyncIterator_init 5))))"
  from stateful_producers_single_use [of 4, unfolded Let_def]
  have "instance_of ?g = AsyncIterable \<lparr>n = max 0 4, limit = 4\<rparr>"
    and g': "fst (snd (drain (aiter (instance_of ?g)))) = []"
    by blast+
  then have g: "instance_of ?g = AsyncIterable \<lparr>n = 4, limit = 4\<rparr>"
    by simp
  from stateful_producers_single_use [of 5, unfolded Let_def]
  have "instance_of ?h = AsyncIterator \<lparr>n = max 0 5 + 1, limit = 5\<rparr>"
    and h': "fst (snd (drain (aiter (instance_of ?h)))) = []"
    by blast+
  then have h: "instance_of ?h = AsyncIterator \<lparr>n = 6, limit = 5\<rparr>"
    by simp
  from g g' have "fst (snd (drain (aiter (AsyncIterable \<lparr>n = 4, limit = 4\<rparr>)))) = []"
    by simp
  moreover from h h' have "fst (snd (drain (aiter (AsyncIterator \<lparr>n = 6, limit = 5\<rparr>)))) = []"
    by simp
  ultimately show ?thesis
    using g h by simp
qed

section \<open>Exhaustion, injection and the cursor\<close>

lemma manual_loop_not_StopAsyncIteration:
  "fst (manual_loop body g acc) \<noteq> Inl StopAsyncIteration"
proof (induction body g acc rule: manual_loop.induct)
  case (1 body g acc)
  obtain r g' where step: "anext g = (r, g')"
    by (cases "anext g")
  show ?case
  proof (cases r)
    case (Inl e)
    with step show ?thesis
      by (simp add: manual_loop.simps [of body g acc])
  next
    case (Inr target)
    with step 1 show ?thesis
      by (auto simp: manual_loop.simps [of body g acc])
  qed
qed

lemma manual_loop_consumes:
  "fst (anext g) = Inl StopAsyncIteration \<Longrightarrow>
   manual_loop body g acc = (Inr (), acc, snd (anext g))"
  by (cases "anext g") (simp add: manual_loop.simps [of body g acc])

text \<open>Whatever \<^verbatim>\<open>__aiter__\<close> returns, in whatever state, the loop over it ends
  normally: its production steps raise nothing but \<^verbatim>\<open>StopAsyncIteration\<close>.\<close>

lemma manual_loop_aiter:
  "fst (manual_loop body (aiter e) acc) = Inr ()"
proof (cases e)
  case (AsyncGen p c)
  then show ?thesis
    by (cases p)
       (simp_all add: loop_AsyncGen_Created loop_AsyncGen_Suspended
          manual_loop.simps [of body "AsyncGen Finished c"])
next
  case (AsyncIterable c)
  then show ?thesis
    by (simp add: loop_AsyncIterableGen_Created)
next
  case (AsyncIterableGen p c)
  then show ?thesis
    by (cases p)
       (simp_all add: loop_AsyncIterableGen_Created loop_AsyncIterableGen_Suspended
          manual_loop.simps [of body "AsyncIterableGen Finished c"])
next
  case (AsyncIterator c)
  then show ?thesis
    by (simp add: loop_AsyncIterator)
qed

text \<open>
  C7. The \<^verbatim>\<open>StopAsyncIteration\<close> a production step raises never leaves the loop
  that drives the producer, neither the \<^verbatim>\<open>while\<close> loop of \<^verbatim>\<open>demo_ag\<close> nor
  \<^verbatim>\<open>async for\<close>: the loop catches it and ends with its state as it was, without
  running its body again, and \<^verbatim>\<open>demo_ag\<close> returns normally for every callable
  and every limit.
\<close>

theorem exhaustion_stays_inside:
  "fst (manual_loop body g acc) \<noteq> Inl StopAsyncIteration
   \<and> fst (async_for body g acc) \<noteq> Inl StopAsyncIteration
   \<and> (fst (anext g) = Inl StopAsyncIteration \<longrightarrow>
        manual_loop body g acc = (Inr (), acc, snd (anext g)))
   \<and> fst (demo_ag ag_callable L out) = Inr ()"
proof -
  have "fst (demo_ag ag_callable L out) = Inr ()"
  proof -
    obtain r out2 g2 where m: "manual_loop loop_body (aiter (ag_callable L))
        (print_end ''manual: '' '''' out) = (r, out2, g2)"
      by (metis prod_cases3)
    with manual_loop_aiter [of loop_body "ag_callable L" "print_end ''manual: '' '''' out"]
    have r: "r = Inr ()"
      by simp
    obtain r' out5 g5 where a: "async_for loop_body (async_gen_func L)
        (print_end ''magic : '' '''' (loop_else out2)) = (r', out5, g5)"
      by (metis prod_cases3)
    with manual_loop_aiter [of loop_body "async_gen_func L"
        "print_end ''magic : '' '''' (loop_else out2)"]
    have r': "r' = Inr ()"
      by (simp add: async_for_def)
    show ?thesis
      by (simp add: demo_ag_def Let_def m r a r')
  qed
  then show ?thesis
    by (simp add: manual_loop_not_StopAsyncIteration manual_loop_consumes async_for_def)
qed

text \<open>An exhausted \<^verbatim>\<open>AsyncIterator(5)\<close>: the step raises, the loop returns
  normally and has printed nothing.\<close>

theorem exhaustion_stays_inside_example:
  "fst (anext (AsyncIterator \<lparr>n = 5, limit = 5\<rparr>)) = Inl StopAsyncIteration
   \<and> manual_loop loop_body (AsyncIterator \<lparr>n = 5, limit = 5\<rparr>) [] =
       (Inr (), [], AsyncIterator \<lparr>n = 6, limit = 5\<rparr>)
   \<and> fst (demo_ag AsyncIterator_init 5 []) = Inr ()"
proof -
  have stop: "fst (anext (AsyncIterator \<lparr>n = 5, limit = 5\<rparr>)) = Inl StopAsyncIteration"
    by simp
  from exhaustion_stays_inside [of loop_body "AsyncIterator \<lparr>n = 5, limit = 5\<rparr>" "[]"
      AsyncIterator_init 5 "[]"] stop
  show ?thesis
    by simp
qed

text \<open>
  C6, amended. A consumer that has received item \<open>k\<close> from the generator of
  \<^verbatim>\<open>AsyncIterable.__aiter__\<close> (the generator is suspended with the cursor at \<open>k\<close>)
  and sends in \<open>V\<close> sets the cursor to \<open>V\<close>. If \<open>V\<close> is below the limit, the next
  produced item (the value the \<^verbatim>\<open>asend\<close> returns) is \<open>V + 1\<close>, which is
  \<open>k + 1\<close> exactly when \<open>V = k\<close>, and the iteration goes on from the injected cursor with
  \<open>V + 2, ..., limit\<close>. If \<open>V\<close> is at the limit or past it, the loop test
  \<^verbatim>\<open>self.n < self.limit\<close> fails, the generator returns and no further item is
  produced. Without the injection the next item is \<open>k + 1\<close>.
\<close>

theorem injection_redirects:
  "asend (Some V) (AsyncIterableGen Suspended c) =
     (if V < limit c then (Inr (V + 1), AsyncIterableGen Suspended (c\<lparr>n := V + 1\<rparr>))
      else (Inl StopAsyncIteration, AsyncIterableGen Finished (c\<lparr>n := V\<rparr>)))
   \<and> (\<forall>x. fst (asend (Some V) (AsyncIterableGen Suspended c)) = Inr x \<longrightarrow> x = V + 1)
   \<and> (V \<noteq> n c \<longrightarrow> fst (asend (Some V) (AsyncIterableGen Suspended c)) \<noteq> Inr (n c + 1))
   \<and> (V < limit c \<longrightarrow>
        fst (asend (Some V) (AsyncIterableGen Suspended c)) = Inr (V + 1)
        \<and> (fst (asend (Some V) (AsyncIterableGen Suspended c)) = Inr (n c + 1) \<longleftrightarrow> V = n c))
   \<and> (limit c \<le> V \<longrightarrow>
        fst (asend (Some V) (AsyncIterableGen Suspended c)) = Inl StopAsyncIteration
        \<and> fst (snd (drain (snd (asend (Some V) (AsyncIterableGen Suspended c))))) = [])
   \<and> (n c < limit c \<longrightarrow> fst (anext (AsyncIterableGen Suspended c)) = Inr (n c + 1))
   \<and> (case fst (asend (Some V) (AsyncIterableGen Suspended c)) of Inr x \<Rightarrow> [x] | Inl e \<Rightarrow> [])
       @ fst (snd (drain (snd (asend (Some V) (AsyncIterableGen Suspended c)))))
     = [V + 1 .. limit c]"
proof -
  have fin: "fst (snd (drain (AsyncIterableGen Finished c'))) = []" for c'
    by (simp add: drain_def
        manual_loop.simps [of "\<lambda>target xs. xs @ [target]" "AsyncIterableGen Finished c'"])
  have sus: "fst (snd (drain (AsyncIterableGen Suspended c'))) = [n c' + 1 .. limit c']" for c'
    by (simp add: drain_def loop_AsyncIterableGen_Suspended foldl_record)
  show ?thesis
  proof (cases "V < limit c")
    case True
    then have "[V + 1 .. limit c] = (V + 1) # [V + 1 + 1 .. limit c]"
      by (simp add: upto_rec1)
    with True show ?thesis
      by (simp add: aig_loop_def Let_def sus)
  next
    case False
    then show ?thesis
      by (simp add: aig_loop_def Let_def fin)
  qed
qed

text \<open>\<^verbatim>\<open>AsyncIterable(10)\<close>: after item 3 the consumer sends 7 and gets 8, then 9
  and 10; after item 3 it sends 10 and the iteration ends.\<close>

theorem injection_redirects_example:
  "(7::int) < 10 \<and> (7::int) \<noteq> 3
   \<and> asend (Some 7) (AsyncIterableGen Suspended \<lparr>n = 3, limit = 10\<rparr>) =
       (Inr 8, AsyncIterableGen Suspended \<lparr>n = 8, limit = 10\<rparr>)
   \<and> fst (snd (drain (AsyncIterableGen Suspended \<lparr>n = 8, limit = 10\<rparr>))) = [9, 10]
   \<and> fst (anext (AsyncIterableGen Suspended \<lparr>n = 3, limit = 10\<rparr>)) = Inr 4
   \<and> asend (Some 10) (AsyncIterableGen Suspended \<lparr>n = 3, limit = 10\<rparr>) =
       (Inl StopAsyncIteration, AsyncIterableGen Finished \<lparr>n = 10, limit = 10\<rparr>)"
proof -
  let ?g = "AsyncIterableGen Suspended \<lparr>n = 3, limit = 10\<rparr>"
  note t = injection_redirects [of 7 "\<lparr>n = 3, limit = 10\<rparr>"]
  from t have "asend (Some 7) ?g =
      (if 7 < limit \<lparr>n = 3, limit = 10\<rparr>
       then (Inr (7 + 1), AsyncIterableGen Suspended (\<lparr>n = 3, limit = 10\<rparr>\<lparr>n := 7 + 1\<rparr>))
       else (Inl StopAsyncIteration,
             AsyncIterableGen Finished (\<lparr>n = 3, limit = 10\<rparr>\<lparr>n := 7\<rparr>)))"
    by blast
  then have send: "asend (Some 7) ?g =
      (Inr 8, AsyncIterableGen Suspended \<lparr>n = 8, limit = 10\<rparr>)"
    by simp
  from t have "(case fst (asend (Some 7) ?g) of Inr x \<Rightarrow> [x] | Inl e \<Rightarrow> [])
       @ fst (snd (drain (snd (asend (Some 7) ?g))))
     = [7 + 1 .. limit \<lparr>n = 3, limit = 10\<rparr>]"
    by blast
  moreover have "[7 + 1 .. limit \<lparr>n = 3, limit = 10\<rparr>] = [8, 9, 10]"
    by (simp add: upto_rec1)
  ultimately have rest:
    "fst (snd (drain (AsyncIterableGen Suspended \<lparr>n = 8, limit = 10\<rparr>))) = [9, 10]"
    by (simp add: aig_loop_def Let_def)
  from t have "n \<lparr>n = 3, limit = 10\<rparr> < limit \<lparr>n = 3, limit = 10\<rparr> \<longrightarrow>
      fst (anext ?g) = Inr (n \<lparr>n = 3, limit = 10\<rparr> + 1)"
    by blast
  then have plain: "fst (anext ?g) = Inr 4"
    by simp
  from injection_redirects [of 10 "\<lparr>n = 3, limit = 10\<rparr>"]
  have "asend (Some 10) ?g =
      (if 10 < limit \<lparr>n = 3, limit = 10\<rparr>
       then (Inr (10 + 1), AsyncIterableGen Suspended (\<lparr>n = 3, limit = 10\<rparr>\<lparr>n := 10 + 1\<rparr>))
       else (Inl StopAsyncIteration,
             AsyncIterableGen Finished (\<lparr>n = 3, limit = 10\<rparr>\<lparr>n := 10\<rparr>)))"
    by blast
  then have "asend (Some 10) ?g =
      (Inl StopAsyncIteration, AsyncIterableGen Finished \<lparr>n = 10, limit = 10\<rparr>)"
    by simp
  with send rest plain show ?thesis
    by simp
qed

text \<open>
  Without the condition on \<open>V\<close> the property fails. A consumer of
  \<^verbatim>\<open>AsyncIterable(10)\<close> that has received the items 1, 2 and 3 and sends in 10 gets
  no item 11: the \<^verbatim>\<open>asend\<close> raises \<^verbatim>\<open>StopAsyncIteration\<close> and the generator
  has returned, so nothing is produced afterwards either. And when it sends in 3, the
  cursor it already has, the next item is \<open>3 + 1\<close>, which is \<open>k + 1\<close>.
\<close>

theorem injection_at_limit_produces_nothing:
  "anext_times 3 (aiter (AsyncIterable_init 10)) =
     AsyncIterableGen Suspended \<lparr>n = 3, limit = 10\<rparr>
   \<and> fst (anext (anext_times 2 (aiter (AsyncIterable_init 10)))) = Inr 3
   \<and> asend (Some 10) (AsyncIterableGen Suspended \<lparr>n = 3, limit = 10\<rparr>) =
       (Inl StopAsyncIteration, AsyncIterableGen Finished \<lparr>n = 10, limit = 10\<rparr>)
   \<and> fst (asend (Some 10) (AsyncIterableGen Suspended \<lparr>n = 3, limit = 10\<rparr>)) \<noteq> Inr (10 + 1)
   \<and> drain (AsyncIterableGen Finished \<lparr>n = 10, limit = 10\<rparr>) =
       (Inr (), [], AsyncIterableGen Finished \<lparr>n = 10, limit = 10\<rparr>)
   \<and> fst (asend (Some 3) (AsyncIterableGen Suspended \<lparr>n = 3, limit = 10\<rparr>)) = Inr (3 + 1)"
proof -
  have three: "(3::nat) = Suc (Suc (Suc 0))" and two: "(2::nat) = Suc (Suc 0)"
    by simp_all
  have "anext_times 3 (aiter (AsyncIterable_init 10)) =
      AsyncIterableGen Suspended \<lparr>n = 3, limit = 10\<rparr>"
    unfolding three by (simp add: AsyncIterable_init_def aig_loop_def Let_def)
  moreover have "fst (anext (anext_times 2 (aiter (AsyncIterable_init 10)))) = Inr 3"
    unfolding two by (simp add: AsyncIterable_init_def aig_loop_def Let_def)
  moreover have "drain (AsyncIterableGen Finished \<lparr>n = 10, limit = 10\<rparr>) =
      (Inr (), [], AsyncIterableGen Finished \<lparr>n = 10, limit = 10\<rparr>)"
    by (simp add: drain_def manual_loop.simps [of "\<lambda>target xs. xs @ [target]"
          "AsyncIterableGen Finished \<lparr>n = 10, limit = 10\<rparr>"])
  ultimately show ?thesis
    by (simp add: aig_loop_def Let_def)
qed

text \<open>
  Every step a consumer can take keeps a producer well formed, so every reachable
  producer is.
\<close>

lemma well_formed_asend: "well_formed g \<Longrightarrow> well_formed (snd (asend x g))"
  by (cases "(x, g)" rule: asend.cases)
     (auto simp: agf_loop_def aig_loop_def Let_def split: option.splits)

lemma well_formed_anext: "well_formed g \<Longrightarrow> well_formed (snd (anext g))"
  by (cases g rule: anext.cases) (simp_all add: Let_def well_formed_asend)

lemma well_formed_again: "well_formed g \<Longrightarrow> well_formed (aiter (instance_of g))"
  by (cases g rule: well_formed.cases) simp_all

lemma reachable_well_formed: "reachable g \<Longrightarrow> well_formed g"
proof (induction rule: reachable.induct)
  case (start_async_gen_func L)
  show ?case by (simp add: async_gen_func_def)
next
  case (start_AsyncIterable L)
  show ?case by (simp add: AsyncIterable_init_def)
next
  case (start_AsyncIterator L)
  show ?case by (simp add: AsyncIterator_init_def)
next
  case (step g)
  then show ?case by (simp add: well_formed_anext)
next
  case (inject g x)
  then show ?case by (simp add: well_formed_asend)
next
  case (again g)
  then show ?case by (simp add: well_formed_again)
qed

text \<open>
  C8. In every producer state a consumer can reach, a production step never lowers the
  cursor and never changes the bound, and it raises \<^verbatim>\<open>StopAsyncIteration\<close> exactly
  when the cursor it starts from is at the bound or past it (an injected value or a
  limit below 0 puts it past). Starting another iteration on the instance keeps the
  cursor. Only a value sent in can lower it.
\<close>

theorem cursor_monotone:
  assumes "reachable g"
  shows "cursor g \<le> cursor (snd (anext g))
       \<and> bound (snd (anext g)) = bound g
       \<and> (fst (anext g) = Inl StopAsyncIteration \<longleftrightarrow> bound g \<le> cursor g)
       \<and> cursor (aiter (instance_of g)) = cursor g"
proof -
  from assms have "well_formed g"
    by (rule reachable_well_formed)
  then show ?thesis
    by (cases g rule: well_formed.cases)
       (auto simp: cursor_def bound_def agf_loop_def aig_loop_def Let_def)
qed

text \<open>
  \<^verbatim>\<open>AsyncIterable(2)\<close> after two production steps: the cursor has reached the
  bound and the third step ends the iteration, the cursor staying where it is.
\<close>

theorem cursor_monotone_example:
  "reachable (AsyncIterableGen Suspended \<lparr>n = 2, limit = 2\<rparr>)
   \<and> cursor (AsyncIterableGen Suspended \<lparr>n = 2, limit = 2\<rparr>) = 2
   \<and> anext (AsyncIterableGen Suspended \<lparr>n = 2, limit = 2\<rparr>) =
       (Inl StopAsyncIteration, AsyncIterableGen Finished \<lparr>n = 2, limit = 2\<rparr>)
   \<and> cursor (AsyncIterableGen Finished \<lparr>n = 2, limit = 2\<rparr>) = 2"
proof -
  have "reachable (snd (anext (snd (anext (aiter (AsyncIterable_init 2))))))"
    by (intro reachable.step reachable.start_AsyncIterable)
  moreover have "snd (anext (snd (anext (aiter (AsyncIterable_init 2))))) =
      AsyncIterableGen Suspended \<lparr>n = 2, limit = 2\<rparr>"
    by (simp add: AsyncIterable_init_def aig_loop_def Let_def)
  ultimately have r: "reachable (AsyncIterableGen Suspended \<lparr>n = 2, limit = 2\<rparr>)"
    by simp
  from cursor_monotone [OF r] r show ?thesis
    by (simp add: cursor_def bound_def aig_loop_def)
qed

text \<open>A value sent in can lower the cursor: 0 sent after item 3 makes it 1.\<close>

lemma injection_lowers_cursor:
  "asend (Some 0) (AsyncIterableGen Suspended \<lparr>n = 3, limit = 10\<rparr>) =
     (Inr 1, AsyncIterableGen Suspended \<lparr>n = 1, limit = 10\<rparr>)"
  by (simp add: aig_loop_def Let_def)

section \<open>The claims about the scoped-resource manager\<close>

lemma async_with_recording:
  assumes "enter m = (Inr v, m1)"
  shows "async_with (unrecorded enter) (recording exit) (unrecorded body)
           ((m, history), calls) =
     (case body m1 of
        (Inl e, m2) \<Rightarrow>
          (case exit (Some e) m2 of
             (Inl e', m3) \<Rightarrow> (Inl e', (m3, history @ [Some e]), calls @ [Aenter, Aexit (Some e)])
           | (Inr r, m3) \<Rightarrow>
               (if truthy r then Inr () else Inl e, (m3, history @ [Some e]),
                calls @ [Aenter, Aexit (Some e)]))
      | (Inr u, m2) \<Rightarrow>
          (case exit None m2 of
             (Inl e', m3) \<Rightarrow> (Inl e', (m3, history @ [None]), calls @ [Aenter, Aexit None])
           | (Inr r, m3) \<Rightarrow> (Inr (), (m3, history @ [None]), calls @ [Aenter, Aexit None])))"
  using assms
  by (simp add: async_with_def unrecorded_def recording_def split: prod.splits sum.splits)

text \<open>
  C2. Once \<^verbatim>\<open>__aenter__\<close> has completed, \<^verbatim>\<open>async with\<close> invokes
  \<^verbatim>\<open>__aexit__\<close> exactly once, whatever the body does: complete, raise, or be
  cancelled while it is suspended (the body then raises \<^verbatim>\<open>CancelledError\<close> at its
  suspension point). The history of invocations that \<^verbatim>\<open>__aexit__\<close> itself keeps
  grows by exactly one entry, the body's exception or \<open>None\<close>. That holds for every
  manager, also one whose \<^verbatim>\<open>__aexit__\<close> raises.
  \<^verbatim>\<open>AsyncContextManager.__aenter__\<close> always completes, so for it every block
  invokes \<^verbatim>\<open>__aexit__\<close> once, and the block ends as its body did, with the
  instance as the body left it.
\<close>

theorem aexit_invoked_once:
  "(fst (enter m) = Inr v \<longrightarrow>
      snd (fst (snd (async_with (unrecorded enter) (recording exit) (unrecorded body)
        ((m, history), calls)))) =
        history @ [case fst (body (snd (enter m))) of Inl e \<Rightarrow> Some e | Inr u \<Rightarrow> None]
      \<and> length (snd (fst (snd (async_with (unrecorded enter) (recording exit)
            (unrecorded body) ((m, history), calls))))) = length history + 1)
   \<and> async_with (unrecorded aenter) (recording aexit) (unrecorded block)
        ((acm, history), calls) =
       (fst (block acm),
        (snd (block acm),
         history @ [case fst (block acm) of Inl e \<Rightarrow> Some e | Inr u \<Rightarrow> None]),
        calls @ [Aenter, Aexit (case fst (block acm) of Inl e \<Rightarrow> Some e | Inr u \<Rightarrow> None)])"
proof -
  have general: "snd (fst (snd (async_with (unrecorded enter) (recording exit)
        (unrecorded body) ((m, history), calls)))) =
      history @ [case fst (body (snd (enter m))) of Inl e \<Rightarrow> Some e | Inr u \<Rightarrow> None]"
    if "fst (enter m) = Inr v"
  proof -
    from that have "enter m = (Inr v, snd (enter m))"
      by (cases "enter m") simp
    from async_with_recording [of enter m v "snd (enter m)" exit body history calls, OF this]
    show ?thesis
      by (simp split: prod.splits sum.splits)
  qed
  have "aenter acm = (Inr PyNone, acm)"
    by (simp add: aenter_def)
  from async_with_recording [of aenter acm PyNone acm aexit block history calls, OF this]
  have concrete: "async_with (unrecorded aenter) (recording aexit) (unrecorded block)
        ((acm, history), calls) =
       (fst (block acm),
        (snd (block acm),
         history @ [case fst (block acm) of Inl e \<Rightarrow> Some e | Inr u \<Rightarrow> None]),
        calls @ [Aenter, Aexit (case fst (block acm) of Inl e \<Rightarrow> Some e | Inr u \<Rightarrow> None)])"
    by (simp add: aexit_def split: prod.splits sum.splits)
  from general concrete show ?thesis
    by simp
qed

text \<open>
  Three blocks on one instance, each started in the state the one before left: a body
  that completes, the body of the notebook's cell, which divides by zero, and a body that
  is cancelled. Each block adds one invocation to the history.
\<close>

theorem aexit_invoked_once_scenarios:
  "fst (aenter (AsyncContextManager_init PyNone)) = Inr PyNone
   \<and> (let r1 = async_with (unrecorded aenter) (recording aexit)
                 (unrecorded (\<lambda>acm. (Inr (), acm)))
                 ((AsyncContextManager_init PyNone, []), []);
          r2 = async_with (unrecorded aenter) (recording aexit) (unrecorded cell_body)
                 (snd r1);
          r3 = async_with (unrecorded aenter) (recording aexit)
                 (unrecorded (\<lambda>acm. (Inl CancelledError, acm))) (snd r2)
      in fst r1 = Inr ()
         \<and> snd (fst (snd r1)) = [None]
         \<and> fst r2 = Inl (ZeroDivisionError ''division by zero'')
         \<and> snd (fst (snd r2)) = [None, Some (ZeroDivisionError ''division by zero'')]
         \<and> fst (fst (snd r2)) =
             \<lparr>exclusive_resource = PyNone, resource_used = Some (PyBool True)\<rparr>
         \<and> fst r3 = Inl CancelledError
         \<and> snd (fst (snd r3)) =
             [None, Some (ZeroDivisionError ''division by zero''), Some CancelledError]
         \<and> fst (fst (snd r3)) =
             \<lparr>exclusive_resource = PyNone, resource_used = Some (PyBool True)\<rparr>)"
proof -
  let ?acm = "AsyncContextManager_init PyNone"
  let ?acm1 = "\<lparr>exclusive_resource = PyNone, resource_used = Some (PyBool True)\<rparr>"
  let ?z = "ZeroDivisionError ''division by zero''"
  have enter: "fst (aenter ?acm) = Inr PyNone"
    by (simp add: aenter_def)
  from aexit_invoked_once [where enter = aenter and m = ?acm and v = PyNone and exit = aexit
      and body = "\<lambda>acm. (Inr (), acm)" and history = "[]" and calls = "[]"
      and block = "\<lambda>acm. (Inr (), acm)" and acm = ?acm] enter
  have once: "length (snd (fst (snd (async_with (unrecorded aenter) (recording aexit)
      (unrecorded (\<lambda>acm. (Inr (), acm))) ((?acm, []), []))))) = 1"
    and r1: "async_with (unrecorded aenter) (recording aexit)
      (unrecorded (\<lambda>acm. (Inr (), acm))) ((?acm, []), []) =
      (Inr (), (?acm, [None]), [Aenter, Aexit None])"
    by simp_all
  from aexit_invoked_once [where enter = aenter and m = ?acm and v = PyNone and exit = aexit
      and body = cell_body and history = "[None]" and calls = "[Aenter, Aexit None]"
      and block = cell_body and acm = ?acm]
  have r2: "async_with (unrecorded aenter) (recording aexit) (unrecorded cell_body)
      ((?acm, [None]), [Aenter, Aexit None]) =
      (Inl ?z, (?acm1, [None, Some ?z]), [Aenter, Aexit None, Aenter, Aexit (Some ?z)])"
    by (simp add: cell_body_def truediv_stmt_def AsyncContextManager_init_def)
  from aexit_invoked_once [where enter = aenter and m = ?acm1 and v = PyNone
      and exit = aexit and body = cell_body and history = "[None, Some ?z]"
      and calls = "[Aenter, Aexit None, Aenter, Aexit (Some ?z)]"
      and block = "\<lambda>acm. (Inl CancelledError, acm)" and acm = ?acm1]
  have r3: "async_with (unrecorded aenter) (recording aexit)
      (unrecorded (\<lambda>acm. (Inl CancelledError, acm)))
      ((?acm1, [None, Some ?z]), [Aenter, Aexit None, Aenter, Aexit (Some ?z)]) =
      (Inl CancelledError, (?acm1, [None, Some ?z, Some CancelledError]),
       [Aenter, Aexit None, Aenter, Aexit (Some ?z), Aenter, Aexit (Some CancelledError)])"
    by simp
  show ?thesis
    unfolding Let_def r1 snd_conv r2 r3 fst_conv
    using enter by simp
qed

text \<open>
  C3. When the body raises, \<^verbatim>\<open>__aexit__\<close> is called with the exception; if it
  returns a true value the statement ends normally, and if it returns a false value or
  \<^verbatim>\<open>None\<close> the exception propagates once \<^verbatim>\<open>__aexit__\<close> has returned.
  \<^verbatim>\<open>AsyncContextManager.__aexit__\<close> returns \<^verbatim>\<open>None\<close>, so the division by
  zero of the notebook's cell reaches the \<^verbatim>\<open>except\<close> clause after the one call of
  \<^verbatim>\<open>__aexit__\<close>, and the cell prints \<^verbatim>\<open>division by zero\<close>.
\<close>

theorem aexit_decides_propagation:
  "(enter m = (Inr v, m1) \<and> body m1 = (Inl e, m2) \<and> exit (Some e) m2 = (Inr r, m3) \<longrightarrow>
      async_with enter exit body (m, calls) =
        (if truthy r then Inr () else Inl e, m3, calls @ [Aenter, Aexit (Some e)]))
   \<and> async_with aenter aexit cell_body (AsyncContextManager_init PyNone, []) =
       (Inl (ZeroDivisionError ''division by zero''),
        \<lparr>exclusive_resource = PyNone, resource_used = Some (PyBool True)\<rparr>,
        [Aenter, Aexit (Some (ZeroDivisionError ''division by zero''))])
   \<and> acm_cell out =
       (out @ ''division by zero'' @ newline,
        \<lparr>exclusive_resource = PyNone, resource_used = Some (PyBool True)\<rparr>,
        [Aenter, Aexit (Some (ZeroDivisionError ''division by zero''))])"
  by (simp add: async_with_def acm_cell_def aenter_def aexit_def cell_body_def
      truediv_stmt_def AsyncContextManager_init_def print_end_def Let_def)

text \<open>
  The notebook's manager lets the exception through; a manager whose
  \<^verbatim>\<open>__aexit__\<close> returns \<^verbatim>\<open>True\<close> would swallow it.
\<close>

theorem aexit_decides_propagation_examples:
  "aexit (Some (ZeroDivisionError ''division by zero''))
      \<lparr>exclusive_resource = PyNone, resource_used = Some (PyBool True)\<rparr> =
     (Inr PyNone, \<lparr>exclusive_resource = PyNone, resource_used = Some (PyBool True)\<rparr>)
   \<and> \<not> truthy PyNone
   \<and> fst (async_with aenter aexit cell_body (AsyncContextManager_init PyNone, [])) =
       Inl (ZeroDivisionError ''division by zero'')
   \<and> truthy (PyBool True)
   \<and> fst (async_with aenter (\<lambda>info acm. (Inr (PyBool True), acm)) cell_body
        (AsyncContextManager_init PyNone, [])) = Inr ()"
proof -
  let ?acm = "AsyncContextManager_init PyNone"
  let ?acm1 = "\<lparr>exclusive_resource = PyNone, resource_used = Some (PyBool True)\<rparr>"
  let ?z = "ZeroDivisionError ''division by zero''"
  have enter: "aenter ?acm = (Inr PyNone, ?acm)"
    by (simp add: aenter_def)
  have body: "cell_body ?acm = (Inl ?z, ?acm1)"
    by (simp add: cell_body_def truediv_stmt_def AsyncContextManager_init_def)
  have exit: "aexit (Some ?z) ?acm1 = (Inr PyNone, ?acm1)"
    by (simp add: aexit_def)
  from aexit_decides_propagation [of aenter ?acm PyNone ?acm cell_body ?z ?acm1 aexit
      PyNone ?acm1 "[]" "[]"] enter body exit
  have 1: "fst (async_with aenter aexit cell_body (?acm, [])) = Inl ?z"
    by simp
  from aexit_decides_propagation [of aenter ?acm PyNone ?acm cell_body ?z ?acm1
      "\<lambda>info acm. (Inr (PyBool True), acm)" "PyBool True" ?acm1 "[]" "[]"] enter body
  have 2: "fst (async_with aenter (\<lambda>info acm. (Inr (PyBool True), acm)) cell_body
      (?acm, [])) = Inr ()"
    by simp
  from exit 1 2 show ?thesis
    by simp
qed

section \<open>The claim about the classifier\<close>

text \<open>What the definitions of the last three cells create.\<close>

lemma subjects:
  "FLO = \<lparr>ob_type = Class ''FutureLike'' [''__init__'', ''_wrapped'', ''__await__''],
          co_flags = 0\<rparr>"
  "NCF = \<lparr>ob_type = FunctionType, co_flags = 0xC3\<rparr>"
  "NCO = Some \<lparr>ob_type = CoroutineType, co_flags = 0xC3\<rparr>"
  "GBCF = \<lparr>ob_type = FunctionType, co_flags = 0x163\<rparr>"
  "GBCO = Some \<lparr>ob_type = GeneratorType, co_flags = 0x163\<rparr>"
  by (simp_all add: FLO_def NCF_def NCO_def GBCF_def GBCO_def new_instance_def
      def_function_def call_function_def asyncio_coroutine_def types_coroutine_def
      iscoroutinefunction_def isgeneratorfunction_def isfunction_def ismethod_def
      CO_OPTIMIZED_def CO_NEWLOCALS_def CO_NOFREE_def CO_GENERATOR_def CO_COROUTINE_def
      CO_ITERABLE_COROUTINE_def CO_ASYNC_GENERATOR_def)

text \<open>
  C4. The truth table of the three predicates on the five subjects: the native coroutine
  function is a coroutine function and nothing else; the coroutine it returns is a
  coroutine and awaitable; the \<^verbatim>\<open>FutureLike\<close> instance is awaitable only; the
  generator-based coroutine function is none of the three; the generator it returns is
  awaitable only. Both calls return an object.
\<close>

theorem classifier_truth_table:
  "iscoroutinefunction NCF \<and> \<not> iscoroutine NCF \<and> \<not> isawaitable NCF
   \<and> (\<exists>nco. NCO = Some nco
        \<and> \<not> iscoroutinefunction nco \<and> iscoroutine nco \<and> isawaitable nco)
   \<and> \<not> iscoroutinefunction FLO \<and> \<not> iscoroutine FLO \<and> isawaitable FLO
   \<and> \<not> iscoroutinefunction GBCF \<and> \<not> iscoroutine GBCF \<and> \<not> isawaitable GBCF
   \<and> (\<exists>gbco. GBCO = Some gbco
        \<and> \<not> iscoroutinefunction gbco \<and> \<not> iscoroutine gbco \<and> isawaitable gbco)"
  by (simp add: subjects iscoroutinefunction_def iscoroutine_def isawaitable_def
      isinstance_Awaitable_def isfunction_def ismethod_def CO_COROUTINE_def
      CO_ITERABLE_COROUTINE_def)

text \<open>
  The assertions of the three cells on \<^verbatim>\<open>collections.abc.Awaitable\<close>, which
  the table leaves out: the generator of a generator-based coroutine is awaitable for
  \<^verbatim>\<open>inspect\<close> and yet no instance of \<^verbatim>\<open>Awaitable\<close>.
\<close>

lemma isinstance_Awaitable_asserts:
  "isinstance_Awaitable FLO \<and> \<not> isinstance_Awaitable NCF
   \<and> \<not> isinstance_Awaitable GBCF
   \<and> NCO = Some \<lparr>ob_type = CoroutineType, co_flags = 0xC3\<rparr>
   \<and> isinstance_Awaitable \<lparr>ob_type = CoroutineType, co_flags = 0xC3\<rparr>
   \<and> GBCO = Some \<lparr>ob_type = GeneratorType, co_flags = 0x163\<rparr>
   \<and> \<not> isinstance_Awaitable \<lparr>ob_type = GeneratorType, co_flags = 0x163\<rparr>"
  by (simp add: subjects isinstance_Awaitable_def)

end
